theory Spec2Isabelle
  imports Main "HOL-Library.Word"
begin

section \<open>The world the script runs in\<close>

text \<open>
  The script \<^verbatim>\<open>generate_test_payload.py\<close> builds four constant byte arrays and
  writes each to a file of the current working directory, printing progress lines.
  Its only effects are on the files of that directory and on standard output, so the
  state is a map from file names to contents together with the sequence of effects
  performed so far. What the operating system answers to \<^verbatim>\<open>open\<close> and
  \<^verbatim>\<open>write\<close> is not decided by the script: it is a parameter, one answer for each
  file name (each name is opened once in a run).
\<close>

type_synonym byte = "8 word"
type_synonym path = string

datatype error = OSError path | ValueError

datatype event =
    Print string
  | Open path
  | Write path "byte list"
  | Close path

text \<open>
  \<open>Open_fails\<close>: \<^verbatim>\<open>open(name, 'wb')\<close> raises (permission denied, read-only
  directory) and the file is not touched. \<open>Write_fails k\<close>: the file is opened and
  truncated, and the write raises after \<open>k\<close> bytes (at most the whole payload) have
  reached the file (disk full, I/O error).
\<close>

datatype outcome = Succeeds | Open_fails | Write_fails nat

type_synonym env = "path \<Rightarrow> outcome"

record world =
  files :: "path \<rightharpoonup> byte list"
  trace :: "event list"

text \<open>
  A Python statement either completes with a value or raises; in both cases the effects
  performed so far stay, so the world is returned with the error as well.
\<close>

type_synonym 'a io = "world \<Rightarrow> (error + 'a) \<times> world"

definition io_return :: "'a \<Rightarrow> 'a io" where
  "io_return x w = (Inr x, w)"

definition io_bind :: "'a io \<Rightarrow> ('a \<Rightarrow> 'b io) \<Rightarrow> 'b io" where
  "io_bind m f w = (case m w of (Inl e, w') \<Rightarrow> (Inl e, w') | (Inr x, w') \<Rightarrow> f x w')"

subsection \<open>Built-ins used by the script\<close>

text \<open>\<^verbatim>\<open>print(msg)\<close>: one line on standard output.\<close>

definition print :: "string \<Rightarrow> unit io" where
  "print msg w = (Inr (), w\<lparr>trace := trace w @ [Print msg]\<rparr>)"

text \<open>
  \<^verbatim>\<open>bytearray\<close> takes Python integers and raises \<^verbatim>\<open>ValueError\<close> for one
  outside \<^verbatim>\<open>range(256)\<close>.
\<close>

definition byte_of :: "int \<Rightarrow> byte option" where
  "byte_of i = (if 0 \<le> i \<and> i < 256 then Some (word_of_int i) else None)"

fun bytes_of :: "int list \<Rightarrow> byte list option" where
  "bytes_of [] = Some []"
| "bytes_of (i # is) =
     (case byte_of i of
        None \<Rightarrow> None
      | Some b \<Rightarrow> (case bytes_of is of None \<Rightarrow> None | Some bs \<Rightarrow> Some (b # bs)))"

definition bytearray :: "int list \<Rightarrow> byte list io" where
  "bytearray xs w = (case bytes_of xs of None \<Rightarrow> (Inl ValueError, w) | Some bs \<Rightarrow> (Inr bs, w))"

definition bytearray_extend :: "byte list \<Rightarrow> int list \<Rightarrow> byte list io" where
  "bytearray_extend payload xs w =
     (case bytes_of xs of None \<Rightarrow> (Inl ValueError, w) | Some bs \<Rightarrow> (Inr (payload @ bs), w))"

definition bytearray_append :: "byte list \<Rightarrow> int \<Rightarrow> byte list io" where
  "bytearray_append payload x w =
     (case byte_of x of None \<Rightarrow> (Inl ValueError, w) | Some b \<Rightarrow> (Inr (payload @ [b]), w))"

text \<open>\<^verbatim>\<open>len\<close> and the decimal rendering of an integer in an f-string.\<close>

definition len :: "byte list \<Rightarrow> int" where
  "len payload = int (length payload)"

definition digit_char :: "nat \<Rightarrow> char" where
  "digit_char d = char_of (48 + d)"

function str_nat :: "nat \<Rightarrow> string" where
  "str_nat n = (if n < 10 then [digit_char n] else str_nat (n div 10) @ [digit_char (n mod 10)])"
  by pat_completeness auto
termination
  by (relation "measure (\<lambda>n. n)") auto

declare str_nat.simps [simp del]

definition str :: "int \<Rightarrow> string" where
  "str i = (if i < 0 then CHR ''-'' # str_nat (nat (- i)) else str_nat (nat i))"

text \<open>
  \<^verbatim>\<open>open(name, 'wb')\<close> creates the file or truncates it; the handle is the name.
  \<^verbatim>\<open>f.write(data)\<close> appends at the end of what the handle has written and
  returns the number of bytes. The \<^verbatim>\<open>with\<close> statement closes the handle on
  both exits and lets an error of its body through.
\<close>

definition open_wb :: "env \<Rightarrow> path \<Rightarrow> path io" where
  "open_wb env name w =
     (case env name of
        Open_fails \<Rightarrow> (Inl (OSError name), w\<lparr>trace := trace w @ [Open name]\<rparr>)
      | _ \<Rightarrow> (Inr name, w\<lparr>files := (files w)(name \<mapsto> []), trace := trace w @ [Open name]\<rparr>))"

definition f_write :: "env \<Rightarrow> path \<Rightarrow> byte list \<Rightarrow> nat io" where
  "f_write env f data w =
     (let old = (case files w f of None \<Rightarrow> [] | Some bs \<Rightarrow> bs) in
      case env f of
        Write_fails k \<Rightarrow>
          (Inl (OSError f),
           w\<lparr>files := (files w)(f \<mapsto> old @ take k data),
             trace := trace w @ [Write f (take k data)]\<rparr>)
      | _ \<Rightarrow>
          (Inr (length data),
           w\<lparr>files := (files w)(f \<mapsto> old @ data), trace := trace w @ [Write f data]\<rparr>))"

definition close :: "path \<Rightarrow> unit io" where
  "close f w = (Inr (), w\<lparr>trace := trace w @ [Close f]\<rparr>)"

definition with_open_wb :: "env \<Rightarrow> path \<Rightarrow> (path \<Rightarrow> 'a io) \<Rightarrow> 'a io" where
  "with_open_wb env name body =
     io_bind (open_wb env name) (\<lambda>f w.
       case body f w of
         (Inl e, w') \<Rightarrow> (Inl e, snd (close f w'))
       | (Inr x, w') \<Rightarrow> io_bind (close f) (\<lambda>_. io_return x) w')"

section \<open>The four generators and the entry routine\<close>

definition generate_x86_payload :: "env \<Rightarrow> unit io" where
  "generate_x86_payload env =
     io_bind (print ''Generating x86 test payload...'') (\<lambda>_.
     io_bind (bytearray []) (\<lambda>payload.
     io_bind (bytearray_extend payload [0xB8, 0x01, 0x00, 0x00, 0x00]) (\<lambda>payload.
     io_bind (bytearray_extend payload [0x05, 0x64, 0x00, 0x00, 0x00]) (\<lambda>payload.
     io_bind (bytearray_append payload 0x40) (\<lambda>payload.
     io_bind (bytearray_append payload 0x48) (\<lambda>payload.
     io_bind (bytearray_append payload 0x50) (\<lambda>payload.
     io_bind (bytearray_append payload 0x58) (\<lambda>payload.
     io_bind (bytearray_append payload 0x90) (\<lambda>payload.
     io_bind (bytearray_extend payload [0xEB, 0xF0]) (\<lambda>payload.
     io_bind (with_open_wb env ''x86_test.bin'' (\<lambda>f. f_write env f payload)) (\<lambda>_.
     print (''x86 payload generated ('' @ str (len payload) @ '' bytes)''))))))))))))"

definition generate_arm_payload :: "env \<Rightarrow> unit io" where
  "generate_arm_payload env =
     io_bind (print ''Generating ARM test payload...'') (\<lambda>_.
     io_bind (bytearray []) (\<lambda>payload.
     io_bind (bytearray_extend payload [0x01, 0x00, 0xA0, 0xE3]) (\<lambda>payload.
     io_bind (bytearray_extend payload [0x64, 0x00, 0x80, 0xE2]) (\<lambda>payload.
     io_bind (bytearray_extend payload [0x32, 0x00, 0x50, 0xE3]) (\<lambda>payload.
     io_bind (bytearray_extend payload [0xF9, 0xFF, 0xFF, 0x1A]) (\<lambda>payload.
     io_bind (with_open_wb env ''arm_test.bin'' (\<lambda>f. f_write env f payload)) (\<lambda>_.
     print (''ARM payload generated ('' @ str (len payload) @ '' bytes)''))))))))"

definition generate_x64_payload :: "env \<Rightarrow> unit io" where
  "generate_x64_payload env =
     io_bind (print ''Generating x64 test payload...'') (\<lambda>_.
     io_bind (bytearray []) (\<lambda>payload.
     io_bind (bytearray_extend payload [0x48, 0xC7, 0xC0, 0x01, 0x00, 0x00, 0x00]) (\<lambda>payload.
     io_bind (bytearray_extend payload [0x48, 0x05, 0x64, 0x00, 0x00, 0x00]) (\<lambda>payload.
     io_bind (bytearray_extend payload [0x48, 0xFF, 0xC0]) (\<lambda>payload.
     io_bind (bytearray_extend payload [0x48, 0xFF, 0xC8]) (\<lambda>payload.
     io_bind (bytearray_append payload 0x50) (\<lambda>payload.
     io_bind (bytearray_append payload 0x58) (\<lambda>payload.
     io_bind (bytearray_extend payload [0xEB, 0xE9]) (\<lambda>payload.
     io_bind (with_open_wb env ''x64_test.bin'' (\<lambda>f. f_write env f payload)) (\<lambda>_.
     print (''x64 payload generated ('' @ str (len payload) @ '' bytes)'')))))))))))"

definition generate_simple_payload :: "env \<Rightarrow> unit io" where
  "generate_simple_payload env =
     io_bind (print ''Generating simple test payload...'') (\<lambda>_.
     io_bind (bytearray [0x01, 0x02, 0x03, 0x04, 0x05, 0x06, 0x07, 0x08]) (\<lambda>payload.
     io_bind (with_open_wb env ''test_payload.bin'' (\<lambda>f. f_write env f payload)) (\<lambda>_.
     print (''Simple payload generated ('' @ str (len payload) @ '' bytes)''))))"

text \<open>\<^verbatim>\<open>"=" * 50\<close> is the string repeated; \<^verbatim>\<open>"\n"\<close> is the line feed.\<close>

definition main :: "env \<Rightarrow> unit io" where
  "main env =
     io_bind (print (concat (replicate 50 ''=''))) (\<lambda>_.
     io_bind (print ''MyOS VM System - Test Payload Generator'') (\<lambda>_.
     io_bind (print (concat (replicate 50 ''=''))) (\<lambda>_.
     io_bind (generate_x86_payload env) (\<lambda>_.
     io_bind (generate_arm_payload env) (\<lambda>_.
     io_bind (generate_x64_payload env) (\<lambda>_.
     io_bind (generate_simple_payload env) (\<lambda>_.
     io_bind (print ([CHR 0x0A] @ concat (replicate 50 ''=''))) (\<lambda>_.
     io_bind (print ''All test payloads generated successfully!'') (\<lambda>_.
     io_bind (print (concat (replicate 50 ''=''))) (\<lambda>_.
     io_bind (print ''Generated files:'') (\<lambda>_.
     io_bind (print ''- x86_test.bin  (x86 architecture)'') (\<lambda>_.
     io_bind (print ''- arm_test.bin  (ARM architecture)'') (\<lambda>_.
     io_bind (print ''- x64_test.bin  (x64 architecture)'') (\<lambda>_.
     io_bind (print ''- test_payload.bin (simple test)'') (\<lambda>_.
     print (concat (replicate 50 ''='')))))))))))))))))"

section \<open>What a run leaves behind\<close>

text \<open>
  The arrays that the four generators have built when they reach their
  \<^verbatim>\<open>with open(...)\<close> statement (source lines 15-39, 52-64, 77-98 and 111).
\<close>

definition x86_bytes :: "byte list" where
  "x86_bytes =
     [0xB8, 0x01, 0x00, 0x00, 0x00, 0x05, 0x64, 0x00, 0x00, 0x00,
      0x40, 0x48, 0x50, 0x58, 0x90, 0xEB, 0xF0]"

definition arm_bytes :: "byte list" where
  "arm_bytes =
     [0x01, 0x00, 0xA0, 0xE3, 0x64, 0x00, 0x80, 0xE2,
      0x32, 0x00, 0x50, 0xE3, 0xF9, 0xFF, 0xFF, 0x1A]"

definition x64_bytes :: "byte list" where
  "x64_bytes =
     [0x48, 0xC7, 0xC0, 0x01, 0x00, 0x00, 0x00, 0x48, 0x05, 0x64, 0x00, 0x00, 0x00,
      0x48, 0xFF, 0xC0, 0x48, 0xFF, 0xC8, 0x50, 0x58, 0xEB, 0xE9]"

definition simple_bytes :: "byte list" where
  "simple_bytes = [0x01, 0x02, 0x03, 0x04, 0x05, 0x06, 0x07, 0x08]"

text \<open>
  Readings of the trace: the names passed to \<^verbatim>\<open>open\<close>, the data passed to
  \<^verbatim>\<open>write\<close>, and the lines printed, each in the order of the calls.
\<close>

fun opened :: "event list \<Rightarrow> path list" where
  "opened [] = []"
| "opened (Open name # es) = name # opened es"
| "opened (e # es) = opened es"

fun written :: "event list \<Rightarrow> (path \<times> byte list) list" where
  "written [] = []"
| "written (Write name data # es) = (name, data) # written es"
| "written (e # es) = written es"

fun printed :: "event list \<Rightarrow> string list" where
  "printed [] = []"
| "printed (Print msg # es) = msg # printed es"
| "printed (e # es) = printed es"

text \<open>Concrete directories and operating-system answers, for running the model.\<close>

definition empty_dir :: world where
  "empty_dir = \<lparr>files = Map.empty, trace = []\<rparr>"

definition all_succeed :: env where
  "all_succeed = (\<lambda>name. Succeeds)"

definition read_only_dir :: env where
  "read_only_dir = (\<lambda>name. Open_fails)"

definition disk_full_at_x64 :: env where
  "disk_full_at_x64 = (\<lambda>name. if name = ''x64_test.bin'' then Write_fails 5 else Succeeds)"

text \<open>The size of a file (0 for a name that is absent) and of the whole directory.\<close>

definition file_size :: "world \<Rightarrow> path \<Rightarrow> nat" where
  "file_size w name = (case files w name of None \<Rightarrow> 0 | Some bs \<Rightarrow> length bs)"

definition directory_size :: "world \<Rightarrow> nat" where
  "directory_size w = (\<Sum>name \<in> dom (files w). file_size w name)"

section \<open>Running the generators\<close>

lemma str_17: "str 17 = ''17''"
  by code_simp

lemma str_16: "str 16 = ''16''"
  by code_simp

lemma str_23: "str 23 = ''23''"
  by code_simp

lemma str_8: "str 8 = ''8''"
  by code_simp

lemmas io_defs = io_bind_def io_return_def print_def bytearray_def bytearray_extend_def
  bytearray_append_def byte_of_def len_def open_wb_def f_write_def close_def with_open_wb_def

lemmas bytes_defs = x86_bytes_def arm_bytes_def x64_bytes_def simple_bytes_def

lemmas str_simps = str_17 str_16 str_23 str_8

text \<open>Each generator, for each of the three answers of the operating system.\<close>

lemma generate_x86_payload_Succeeds:
  "env ''x86_test.bin'' = Succeeds \<Longrightarrow>
   generate_x86_payload env w =
     (Inr (),
      w\<lparr>files := (files w)(''x86_test.bin'' \<mapsto> x86_bytes),
        trace := trace w @
          [Print ''Generating x86 test payload...'', Open ''x86_test.bin'',
           Write ''x86_test.bin'' x86_bytes, Close ''x86_test.bin'',
           Print ''x86 payload generated (17 bytes)'']\<rparr>)"
  by (simp add: generate_x86_payload_def io_defs bytes_defs str_simps)

lemma generate_x86_payload_Open_fails:
  "env ''x86_test.bin'' = Open_fails \<Longrightarrow>
   generate_x86_payload env w =
     (Inl (OSError ''x86_test.bin''),
      w\<lparr>trace := trace w @
          [Print ''Generating x86 test payload...'', Open ''x86_test.bin'']\<rparr>)"
  by (simp add: generate_x86_payload_def io_defs)

lemma generate_x86_payload_Write_fails:
  "env ''x86_test.bin'' = Write_fails k \<Longrightarrow>
   generate_x86_payload env w =
     (Inl (OSError ''x86_test.bin''),
      w\<lparr>files := (files w)(''x86_test.bin'' \<mapsto> take k x86_bytes),
        trace := trace w @
          [Print ''Generating x86 test payload...'', Open ''x86_test.bin'',
           Write ''x86_test.bin'' (take k x86_bytes), Close ''x86_test.bin'']\<rparr>)"
  by (simp add: generate_x86_payload_def io_defs bytes_defs)

lemma generate_arm_payload_Succeeds:
  "env ''arm_test.bin'' = Succeeds \<Longrightarrow>
   generate_arm_payload env w =
     (Inr (),
      w\<lparr>files := (files w)(''arm_test.bin'' \<mapsto> arm_bytes),
        trace := trace w @
          [Print ''Generating ARM test payload...'', Open ''arm_test.bin'',
           Write ''arm_test.bin'' arm_bytes, Close ''arm_test.bin'',
           Print ''ARM payload generated (16 bytes)'']\<rparr>)"
  by (simp add: generate_arm_payload_def io_defs bytes_defs str_simps)

lemma generate_arm_payload_Open_fails:
  "env ''arm_test.bin'' = Open_fails \<Longrightarrow>
   generate_arm_payload env w =
     (Inl (OSError ''arm_test.bin''),
      w\<lparr>trace := trace w @
          [Print ''Generating ARM test payload...'', Open ''arm_test.bin'']\<rparr>)"
  by (simp add: generate_arm_payload_def io_defs)

lemma generate_arm_payload_Write_fails:
  "env ''arm_test.bin'' = Write_fails k \<Longrightarrow>
   generate_arm_payload env w =
     (Inl (OSError ''arm_test.bin''),
      w\<lparr>files := (files w)(''arm_test.bin'' \<mapsto> take k arm_bytes),
        trace := trace w @
          [Print ''Generating ARM test payload...'', Open ''arm_test.bin'',
           Write ''arm_test.bin'' (take k arm_bytes), Close ''arm_test.bin'']\<rparr>)"
  by (simp add: generate_arm_payload_def io_defs bytes_defs)

lemma generate_x64_payload_Succeeds:
  "env ''x64_test.bin'' = Succeeds \<Longrightarrow>
   generate_x64_payload env w =
     (Inr (),
      w\<lparr>files := (files w)(''x64_test.bin'' \<mapsto> x64_bytes),
        trace := trace w @
          [Print ''Generating x64 test payload...'', Open ''x64_test.bin'',
           Write ''x64_test.bin'' x64_bytes, Close ''x64_test.bin'',
           Print ''x64 payload generated (23 bytes)'']\<rparr>)"
  by (simp add: generate_x64_payload_def io_defs bytes_defs str_simps)

lemma generate_x64_payload_Open_fails:
  "env ''x64_test.bin'' = Open_fails \<Longrightarrow>
   generate_x64_payload env w =
     (Inl (OSError ''x64_test.bin''),
      w\<lparr>trace := trace w @
          [Print ''Generating x64 test payload...'', Open ''x64_test.bin'']\<rparr>)"
  by (simp add: generate_x64_payload_def io_defs)

lemma generate_x64_payload_Write_fails:
  "env ''x64_test.bin'' = Write_fails k \<Longrightarrow>
   generate_x64_payload env w =
     (Inl (OSError ''x64_test.bin''),
      w\<lparr>files := (files w)(''x64_test.bin'' \<mapsto> take k x64_bytes),
        trace := trace w @
          [Print ''Generating x64 test payload...'', Open ''x64_test.bin'',
           Write ''x64_test.bin'' (take k x64_bytes), Close ''x64_test.bin'']\<rparr>)"
  by (simp add: generate_x64_payload_def io_defs bytes_defs)

lemma generate_simple_payload_Succeeds:
  "env ''test_payload.bin'' = Succeeds \<Longrightarrow>
   generate_simple_payload env w =
     (Inr (),
      w\<lparr>files := (files w)(''test_payload.bin'' \<mapsto> simple_bytes),
        trace := trace w @
          [Print ''Generating simple test payload...'', Open ''test_payload.bin'',
           Write ''test_payload.bin'' simple_bytes, Close ''test_payload.bin'',
           Print ''Simple payload generated (8 bytes)'']\<rparr>)"
  by (simp add: generate_simple_payload_def io_defs bytes_defs str_simps)

lemma generate_simple_payload_Open_fails:
  "env ''test_payload.bin'' = Open_fails \<Longrightarrow>
   generate_simple_payload env w =
     (Inl (OSError ''test_payload.bin''),
      w\<lparr>trace := trace w @
          [Print ''Generating simple test payload...'', Open ''test_payload.bin'']\<rparr>)"
  by (simp add: generate_simple_payload_def io_defs)

lemma generate_simple_payload_Write_fails:
  "env ''test_payload.bin'' = Write_fails k \<Longrightarrow>
   generate_simple_payload env w =
     (Inl (OSError ''test_payload.bin''),
      w\<lparr>files := (files w)(''test_payload.bin'' \<mapsto> take k simple_bytes),
        trace := trace w @
          [Print ''Generating simple test payload...'', Open ''test_payload.bin'',
           Write ''test_payload.bin'' (take k simple_bytes), Close ''test_payload.bin'']\<rparr>)"
  by (simp add: generate_simple_payload_def io_defs bytes_defs)

lemmas generate_cases =
  generate_x86_payload_Succeeds generate_x86_payload_Open_fails generate_x86_payload_Write_fails
  generate_arm_payload_Succeeds generate_arm_payload_Open_fails generate_arm_payload_Write_fails
  generate_x64_payload_Succeeds generate_x64_payload_Open_fails generate_x64_payload_Write_fails
  generate_simple_payload_Succeeds generate_simple_payload_Open_fails
  generate_simple_payload_Write_fails

text \<open>A generator returns normally exactly when the system lets it open and write.\<close>

lemma generate_x86_payload_ok_iff:
  "fst (generate_x86_payload env w) = Inr () \<longleftrightarrow> env ''x86_test.bin'' = Succeeds"
  by (cases "env ''x86_test.bin''") (simp_all add: generate_cases)

lemma generate_arm_payload_ok_iff:
  "fst (generate_arm_payload env w) = Inr () \<longleftrightarrow> env ''arm_test.bin'' = Succeeds"
  by (cases "env ''arm_test.bin''") (simp_all add: generate_cases)

lemma generate_x64_payload_ok_iff:
  "fst (generate_x64_payload env w) = Inr () \<longleftrightarrow> env ''x64_test.bin'' = Succeeds"
  by (cases "env ''x64_test.bin''") (simp_all add: generate_cases)

lemma generate_simple_payload_ok_iff:
  "fst (generate_simple_payload env w) = Inr () \<longleftrightarrow> env ''test_payload.bin'' = Succeeds"
  by (cases "env ''test_payload.bin''") (simp_all add: generate_cases)

section \<open>Running the entry routine\<close>

lemma opened_append: "opened (xs @ ys) = opened xs @ opened ys"
  by (induction xs rule: opened.induct) simp_all

lemma written_append: "written (xs @ ys) = written xs @ written ys"
  by (induction xs rule: written.induct) simp_all


lemmas main_defs = main_def io_bind_def print_def

text \<open>When the system lets all four files be written, the run is this one.\<close>

lemma main_Succeeds:
  assumes "env ''x86_test.bin'' = Succeeds" and "env ''arm_test.bin'' = Succeeds"
    and "env ''x64_test.bin'' = Succeeds" and "env ''test_payload.bin'' = Succeeds"
  shows "main env w =
     (Inr (),
      w\<lparr>files := (files w)(''x86_test.bin'' \<mapsto> x86_bytes, ''arm_test.bin'' \<mapsto> arm_bytes,
                   ''x64_test.bin'' \<mapsto> x64_bytes, ''test_payload.bin'' \<mapsto> simple_bytes),
        trace := trace w @
          [Print ''=================================================='',
           Print ''MyOS VM System - Test Payload Generator'',
           Print ''=================================================='',
           Print ''Generating x86 test payload...'', Open ''x86_test.bin'',
           Write ''x86_test.bin'' x86_bytes, Close ''x86_test.bin'',
           Print ''x86 payload generated (17 bytes)'',
           Print ''Generating ARM test payload...'', Open ''arm_test.bin'',
           Write ''arm_test.bin'' arm_bytes, Close ''arm_test.bin'',
           Print ''ARM payload generated (16 bytes)'',
           Print ''Generating x64 test payload...'', Open ''x64_test.bin'',
           Write ''x64_test.bin'' x64_bytes, Close ''x64_test.bin'',
           Print ''x64 payload generated (23 bytes)'',
           Print ''Generating simple test payload...'', Open ''test_payload.bin'',
           Write ''test_payload.bin'' simple_bytes, Close ''test_payload.bin'',
           Print ''Simple payload generated (8 bytes)'',
           Print (CHR 0x0A # ''==================================================''),
           Print ''All test payloads generated successfully!'',
           Print ''=================================================='',
           Print ''Generated files:'',
           Print ''- x86_test.bin  (x86 architecture)'',
           Print ''- arm_test.bin  (ARM architecture)'',
           Print ''- x64_test.bin  (x64 architecture)'',
           Print ''- test_payload.bin (simple test)'',
           Print ''=================================================='']\<rparr>)"
  using assms by (simp add: main_defs generate_cases eval_nat_numeral)

text \<open>The entry routine returns normally exactly when all four generators do.\<close>

lemma main_ok_iff:
  "fst (main env w) = Inr () \<longleftrightarrow>
     env ''x86_test.bin'' = Succeeds \<and> env ''arm_test.bin'' = Succeeds \<and>
     env ''x64_test.bin'' = Succeeds \<and> env ''test_payload.bin'' = Succeeds"
  by (cases "env ''x86_test.bin''"; cases "env ''arm_test.bin''"; cases "env ''x64_test.bin''";
      cases "env ''test_payload.bin''")
     (simp_all add: main_defs generate_cases)

lemma banner_line:
  "replicate 50 CHR ''='' = ''==================================================''"
  by (simp add: eval_nat_numeral)

text \<open>
  When the system refuses a file, the run stops in the generator of that file: the eight
  runs that raise, by the first file refused and by the call that raised.
\<close>

lemma main_x86_Open_fails:
  assumes "env ''x86_test.bin'' = Open_fails"
  shows "main env w =
     (Inl (OSError ''x86_test.bin''),
      w\<lparr>trace := trace w @
          [Print ''=================================================='',
           Print ''MyOS VM System - Test Payload Generator'',
           Print ''=================================================='',
           Print ''Generating x86 test payload...'',
           Open ''x86_test.bin'']\<rparr>)"
  using assms by (simp add: main_defs generate_cases banner_line)

lemma main_x86_Write_fails:
  assumes "env ''x86_test.bin'' = Write_fails k"
  shows "main env w =
     (Inl (OSError ''x86_test.bin''),
      w\<lparr>files := (files w)(''x86_test.bin'' \<mapsto> take k x86_bytes),
        trace := trace w @
          [Print ''=================================================='',
           Print ''MyOS VM System - Test Payload Generator'',
           Print ''=================================================='',
           Print ''Generating x86 test payload...'',
           Open ''x86_test.bin'',
           Write ''x86_test.bin'' (take k x86_bytes),
           Close ''x86_test.bin'']\<rparr>)"
  using assms by (simp add: main_defs generate_cases banner_line)

lemma main_arm_Open_fails:
  assumes "env ''x86_test.bin'' = Succeeds"
    and "env ''arm_test.bin'' = Open_fails"
  shows "main env w =
     (Inl (OSError ''arm_test.bin''),
      w\<lparr>files := (files w)(''x86_test.bin'' \<mapsto> x86_bytes),
        trace := trace w @
          [Print ''=================================================='',
           Print ''MyOS VM System - Test Payload Generator'',
           Print ''=================================================='',
           Print ''Generating x86 test payload...'',
           Open ''x86_test.bin'',
           Write ''x86_test.bin'' x86_bytes,
           Close ''x86_test.bin'',
           Print ''x86 payload generated (17 bytes)'',
           Print ''Generating ARM test payload...'',
           Open ''arm_test.bin'']\<rparr>)"
  using assms by (simp add: main_defs generate_cases banner_line)

lemma main_arm_Write_fails:
  assumes "env ''x86_test.bin'' = Succeeds"
    and "env ''arm_test.bin'' = Write_fails k"
  shows "main env w =
     (Inl (OSError ''arm_test.bin''),
      w\<lparr>files := (files w)(''x86_test.bin'' \<mapsto> x86_bytes,
                           ''arm_test.bin'' \<mapsto> take k arm_bytes),
        trace := trace w @
          [Print ''=================================================='',
           Print ''MyOS VM System - Test Payload Generator'',
           Print ''=================================================='',
           Print ''Generating x86 test payload...'',
           Open ''x86_test.bin'',
           Write ''x86_test.bin'' x86_bytes,
           Close ''x86_test.bin'',
           Print ''x86 payload generated (17 bytes)'',
           Print ''Generating ARM test payload...'',
           Open ''arm_test.bin'',
           Write ''arm_test.bin'' (take k arm_bytes),
           Close ''arm_test.bin'']\<rparr>)"
  using assms by (simp add: main_defs generate_cases banner_line)

lemma main_x64_Open_fails:
  assumes "env ''x86_test.bin'' = Succeeds"
    and "env ''arm_test.bin'' = Succeeds"
    and "env ''x64_test.bin'' = Open_fails"
  shows "main env w =
     (Inl (OSError ''x64_test.bin''),
      w\<lparr>files := (files w)(''x86_test.bin'' \<mapsto> x86_bytes,
                           ''arm_test.bin'' \<mapsto> arm_bytes),
        trace := trace w @
          [Print ''=================================================='',
           Print ''MyOS VM System - Test Payload Generator'',
           Print ''=================================================='',
           Print ''Generating x86 test payload...'',
           Open ''x86_test.bin'',
           Write ''x86_test.bin'' x86_bytes,
           Close ''x86_test.bin'',
           Print ''x86 payload generated (17 bytes)'',
           Print ''Generating ARM test payload...'',
           Open ''arm_test.bin'',
           Write ''arm_test.bin'' arm_bytes,
           Close ''arm_test.bin'',
           Print ''ARM payload generated (16 bytes)'',
           Print ''Generating x64 test payload...'',
           Open ''x64_test.bin'']\<rparr>)"
  using assms by (simp add: main_defs generate_cases banner_line)

lemma main_x64_Write_fails:
  assumes "env ''x86_test.bin'' = Succeeds"
    and "env ''arm_test.bin'' = Succeeds"
    and "env ''x64_test.bin'' = Write_fails k"
  shows "main env w =
     (Inl (OSError ''x64_test.bin''),
      w\<lparr>files := (files w)(''x86_test.bin'' \<mapsto> x86_bytes,
                           ''arm_test.bin'' \<mapsto> arm_bytes,
                           ''x64_test.bin'' \<mapsto> take k x64_bytes),
        trace := trace w @
          [Print ''=================================================='',
           Print ''MyOS VM System - Test Payload Generator'',
           Print ''=================================================='',
           Print ''Generating x86 test payload...'',
           Open ''x86_test.bin'',
           Write ''x86_test.bin'' x86_bytes,
           Close ''x86_test.bin'',
           Print ''x86 payload generated (17 bytes)'',
           Print ''Generating ARM test payload...'',
           Open ''arm_test.bin'',
           Write ''arm_test.bin'' arm_bytes,
           Close ''arm_test.bin'',
           Print ''ARM payload generated (16 bytes)'',
           Print ''Generating x64 test payload...'',
           Open ''x64_test.bin'',
           Write ''x64_test.bin'' (take k x64_bytes),
           Close ''x64_test.bin'']\<rparr>)"
  using assms by (simp add: main_defs generate_cases banner_line)

lemma main_simple_Open_fails:
  assumes "env ''x86_test.bin'' = Succeeds"
    and "env ''arm_test.bin'' = Succeeds"
    and "env ''x64_test.bin'' = Succeeds"
    and "env ''test_payload.bin'' = Open_fails"
  shows "main env w =
     (Inl (OSError ''test_payload.bin''),
      w\<lparr>files := (files w)(''x86_test.bin'' \<mapsto> x86_bytes,
                           ''arm_test.bin'' \<mapsto> arm_bytes,
                           ''x64_test.bin'' \<mapsto> x64_bytes),
        trace := trace w @
          [Print ''=================================================='',
           Print ''MyOS VM System - Test Payload Generator'',
           Print ''=================================================='',
           Print ''Generating x86 test payload...'',
           Open ''x86_test.bin'',
           Write ''x86_test.bin'' x86_bytes,
           Close ''x86_test.bin'',
           Print ''x86 payload generated (17 bytes)'',
           Print ''Generating ARM test payload...'',
           Open ''arm_test.bin'',
           Write ''arm_test.bin'' arm_bytes,
           Close ''arm_test.bin'',
           Print ''ARM payload generated (16 bytes)'',
           Print ''Generating x64 test payload...'',
           Open ''x64_test.bin'',
           Write ''x64_test.bin'' x64_bytes,
           Close ''x64_test.bin'',
           Print ''x64 payload generated (23 bytes)'',
           Print ''Generating simple test payload...'',
           Open ''test_payload.bin'']\<rparr>)"
  using assms by (simp add: main_defs generate_cases banner_line)

lemma main_simple_Write_fails:
  assumes "env ''x86_test.bin'' = Succeeds"
    and "env ''arm_test.bin'' = Succeeds"
    and "env ''x64_test.bin'' = Succeeds"
    and "env ''test_payload.bin'' = Write_fails k"
  shows "main env w =
     (Inl (OSError ''test_payload.bin''),
      w\<lparr>files := (files w)(''x86_test.bin'' \<mapsto> x86_bytes,
                           ''arm_test.bin'' \<mapsto> arm_bytes,
                           ''x64_test.bin'' \<mapsto> x64_bytes,
                           ''test_payload.bin'' \<mapsto> take k simple_bytes),
        trace := trace w @
          [Print ''=================================================='',
           Print ''MyOS VM System - Test Payload Generator'',
           Print ''=================================================='',
           Print ''Generating x86 test payload...'',
           Open ''x86_test.bin'',
           Write ''x86_test.bin'' x86_bytes,
           Close ''x86_test.bin'',
           Print ''x86 payload generated (17 bytes)'',
           Print ''Generating ARM test payload...'',
           Open ''arm_test.bin'',
           Write ''arm_test.bin'' arm_bytes,
           Close ''arm_test.bin'',
           Print ''ARM payload generated (16 bytes)'',
           Print ''Generating x64 test payload...'',
           Open ''x64_test.bin'',
           Write ''x64_test.bin'' x64_bytes,
           Close ''x64_test.bin'',
           Print ''x64 payload generated (23 bytes)'',
           Print ''Generating simple test payload...'',
           Open ''test_payload.bin'',
           Write ''test_payload.bin'' (take k simple_bytes),
           Close ''test_payload.bin'']\<rparr>)"
  using assms by (simp add: main_defs generate_cases banner_line)

text \<open>The nine ways a run can go: all four files written, or a first file refused.\<close>

lemma run_cases [case_names all_ok x86_open x86_write arm_open arm_write x64_open x64_write
    simple_open simple_write]:
  obtains
    "env ''x86_test.bin'' = Succeeds" and "env ''arm_test.bin'' = Succeeds"
      and "env ''x64_test.bin'' = Succeeds" and "env ''test_payload.bin'' = Succeeds"
  | "env ''x86_test.bin'' = Open_fails"
  | k where "env ''x86_test.bin'' = Write_fails k"
  | "env ''x86_test.bin'' = Succeeds" and "env ''arm_test.bin'' = Open_fails"
  | k where "env ''x86_test.bin'' = Succeeds" and "env ''arm_test.bin'' = Write_fails k"
  | "env ''x86_test.bin'' = Succeeds" and "env ''arm_test.bin'' = Succeeds"
      and "env ''x64_test.bin'' = Open_fails"
  | k where "env ''x86_test.bin'' = Succeeds" and "env ''arm_test.bin'' = Succeeds"
      and "env ''x64_test.bin'' = Write_fails k"
  | "env ''x86_test.bin'' = Succeeds" and "env ''arm_test.bin'' = Succeeds"
      and "env ''x64_test.bin'' = Succeeds" and "env ''test_payload.bin'' = Open_fails"
  | k where "env ''x86_test.bin'' = Succeeds" and "env ''arm_test.bin'' = Succeeds"
      and "env ''x64_test.bin'' = Succeeds" and "env ''test_payload.bin'' = Write_fails k"
proof (cases "env ''x86_test.bin''")
  case Succeeds
  note x86 = this
  show ?thesis
  proof (cases "env ''arm_test.bin''")
    case Succeeds
    note arm = this
    show ?thesis
    proof (cases "env ''x64_test.bin''")
      case Succeeds
      note x64 = this
      show ?thesis
        using that x86 arm x64 by (cases "env ''test_payload.bin''") blast+
    qed (use that x86 arm in blast)+
  qed (use that x86 in blast)+
qed (use that in blast)+

section \<open>The contents of the four files\<close>

text \<open>
  C1, as the code has it: when \<open>generate_x86_payload\<close> returns normally,
  \<^verbatim>\<open>x86_test.bin\<close> holds the fixed sequence built at lines 15-39, in order
  \<^verbatim>\<open>mov eax, 1\<close> (load immediate, 5 bytes), \<^verbatim>\<open>add eax, 100\<close> (5 bytes),
  \<^verbatim>\<open>inc eax\<close>, \<^verbatim>\<open>dec eax\<close>, \<^verbatim>\<open>push eax\<close>, \<^verbatim>\<open>pop eax\<close>,
  \<^verbatim>\<open>nop\<close> (1 byte each) and a short jump \<^verbatim>\<open>EB F0\<close> whose 8-bit displacement is
  negative (\<open>-16\<close>, backwards). That is 17 bytes, not 23.
\<close>

theorem generate_x86_payload_file:
  assumes "fst (generate_x86_payload env w) = Inr ()"
  shows "files (snd (generate_x86_payload env w)) ''x86_test.bin'' =
           Some ([0xB8, 0x01, 0x00, 0x00, 0x00] @ [0x05, 0x64, 0x00, 0x00, 0x00] @
                 [0x40] @ [0x48] @ [0x50] @ [0x58] @ [0x90] @ [0xEB, 0xF0]) \<and>
         map_option length (files (snd (generate_x86_payload env w)) ''x86_test.bin'') = Some 17 \<and>
         map_option (\<lambda>bs. sint (last bs))
           (files (snd (generate_x86_payload env w)) ''x86_test.bin'') = Some (- 16)"
proof -
  from assms have "env ''x86_test.bin'' = Succeeds"
    by (simp add: generate_x86_payload_ok_iff)
  then show ?thesis
    by (simp add: generate_x86_payload_Succeeds x86_bytes_def)
qed

theorem generate_x86_payload_file_witness:
  "fst (generate_x86_payload all_succeed empty_dir) = Inr () \<and>
   files (snd (generate_x86_payload all_succeed empty_dir)) ''x86_test.bin'' =
     Some [0xB8, 0x01, 0x00, 0x00, 0x00, 0x05, 0x64, 0x00, 0x00, 0x00,
           0x40, 0x48, 0x50, 0x58, 0x90, 0xEB, 0xF0]"
proof -
  have ok: "fst (generate_x86_payload all_succeed empty_dir) = Inr ()"
    by (simp add: generate_x86_payload_ok_iff all_succeed_def)
  show ?thesis
    using ok generate_x86_payload_file [OF ok] by simp
qed

text \<open>
  C1 as the specification states it (23 bytes) fails: in an empty directory where every
  write succeeds, the file written has 17 bytes.
\<close>

theorem generate_x86_payload_23_counterexample:
  "fst (generate_x86_payload all_succeed empty_dir) = Inr () \<and>
   map_option length (files (snd (generate_x86_payload all_succeed empty_dir)) ''x86_test.bin'')
     \<noteq> Some 23"
  by (simp add: generate_x86_payload_Succeeds all_succeed_def x86_bytes_def)

text \<open>
  C2, as the code has it: when \<open>generate_x64_payload\<close> returns normally,
  \<^verbatim>\<open>x64_test.bin\<close> holds the fixed sequence built at lines 77-98, in order
  \<^verbatim>\<open>mov rax, 1\<close> (7 bytes), \<^verbatim>\<open>add rax, 100\<close> (6 bytes), \<^verbatim>\<open>inc rax\<close>
  (3 bytes), \<^verbatim>\<open>dec rax\<close> (3 bytes), \<^verbatim>\<open>push rax\<close>, \<^verbatim>\<open>pop rax\<close> (1 byte
  each) and a short jump \<^verbatim>\<open>EB E9\<close> with the fixed 8-bit displacement \<open>-23\<close>.
  That is 23 bytes, not 26.
\<close>

theorem generate_x64_payload_file:
  assumes "fst (generate_x64_payload env w) = Inr ()"
  shows "files (snd (generate_x64_payload env w)) ''x64_test.bin'' =
           Some ([0x48, 0xC7, 0xC0, 0x01, 0x00, 0x00, 0x00] @ [0x48, 0x05, 0x64, 0x00, 0x00, 0x00] @
                 [0x48, 0xFF, 0xC0] @ [0x48, 0xFF, 0xC8] @ [0x50] @ [0x58] @ [0xEB, 0xE9]) \<and>
         map_option length (files (snd (generate_x64_payload env w)) ''x64_test.bin'') = Some 23 \<and>
         map_option (\<lambda>bs. sint (last bs))
           (files (snd (generate_x64_payload env w)) ''x64_test.bin'') = Some (- 23)"
proof -
  from assms have "env ''x64_test.bin'' = Succeeds"
    by (simp add: generate_x64_payload_ok_iff)
  then show ?thesis
    by (simp add: generate_x64_payload_Succeeds x64_bytes_def)
qed

theorem generate_x64_payload_file_witness:
  "fst (generate_x64_payload all_succeed empty_dir) = Inr () \<and>
   files (snd (generate_x64_payload all_succeed empty_dir)) ''x64_test.bin'' =
     Some [0x48, 0xC7, 0xC0, 0x01, 0x00, 0x00, 0x00, 0x48, 0x05, 0x64, 0x00, 0x00, 0x00,
           0x48, 0xFF, 0xC0, 0x48, 0xFF, 0xC8, 0x50, 0x58, 0xEB, 0xE9]"
proof -
  have ok: "fst (generate_x64_payload all_succeed empty_dir) = Inr ()"
    by (simp add: generate_x64_payload_ok_iff all_succeed_def)
  show ?thesis
    using ok generate_x64_payload_file [OF ok] by simp
qed

text \<open>
  C2 as the specification states it (26 bytes) fails: in an empty directory where every
  write succeeds, the file written has 23 bytes.
\<close>

theorem generate_x64_payload_26_counterexample:
  "fst (generate_x64_payload all_succeed empty_dir) = Inr () \<and>
   map_option length (files (snd (generate_x64_payload all_succeed empty_dir)) ''x64_test.bin'')
     \<noteq> Some 26"
  by (simp add: generate_x64_payload_Succeeds all_succeed_def x64_bytes_def)

text \<open>
  C4: when \<open>generate_arm_payload\<close> returns normally, \<^verbatim>\<open>arm_test.bin\<close> holds
  exactly 16 bytes, which read as four little-endian 32-bit words are
  \<^verbatim>\<open>E3A00001\<close> (\<^verbatim>\<open>mov r0, #1\<close>), \<^verbatim>\<open>E2800064\<close> (\<^verbatim>\<open>add r0, r0, #100\<close>),
  \<^verbatim>\<open>E3500032\<close> (\<^verbatim>\<open>cmp r0, #50\<close>) and \<^verbatim>\<open>1AFFFFF9\<close>: condition field 1
  (not equal), bits 27-24 \<^verbatim>\<open>1010\<close> (branch), and a signed 24-bit displacement of
  \<open>-7\<close> words, which is negative.
\<close>

theorem generate_arm_payload_file:
  assumes "fst (generate_arm_payload env w) = Inr ()"
  shows "files (snd (generate_arm_payload env w)) ''arm_test.bin'' =
           Some ([0x01, 0x00, 0xA0, 0xE3] @ [0x64, 0x00, 0x80, 0xE2] @
                 [0x32, 0x00, 0x50, 0xE3] @ [0xF9, 0xFF, 0xFF, 0x1A]) \<and>
         map_option length (files (snd (generate_arm_payload env w)) ''arm_test.bin'') = Some 16 \<and>
         map_option
           (\<lambda>bs. [word_rcat (rev (take 4 bs)), word_rcat (rev (take 4 (drop 4 bs))),
                  word_rcat (rev (take 4 (drop 8 bs))), word_rcat (rev (drop 12 bs))])
           (files (snd (generate_arm_payload env w)) ''arm_test.bin'') =
           Some [0xE3A00001, 0xE2800064, 0xE3500032, 0x1AFFFFF9 :: 32 word] \<and>
         map_option
           (\<lambda>bs. (drop_bit 28 (word_rcat (rev (drop 12 bs)) :: 32 word),
                  take_bit 4 (drop_bit 24 (word_rcat (rev (drop 12 bs)) :: 32 word)),
                  sint (ucast (word_rcat (rev (drop 12 bs)) :: 32 word) :: 24 word)))
           (files (snd (generate_arm_payload env w)) ''arm_test.bin'') =
           Some (1, 0xA, - 7)"
proof -
  from assms have "env ''arm_test.bin'' = Succeeds"
    by (simp add: generate_arm_payload_ok_iff)
  then show ?thesis
    by (simp add: generate_arm_payload_Succeeds arm_bytes_def word_rcat_def)
qed

theorem generate_arm_payload_file_witness:
  "fst (generate_arm_payload all_succeed empty_dir) = Inr () \<and>
   files (snd (generate_arm_payload all_succeed empty_dir)) ''arm_test.bin'' =
     Some [0x01, 0x00, 0xA0, 0xE3, 0x64, 0x00, 0x80, 0xE2,
           0x32, 0x00, 0x50, 0xE3, 0xF9, 0xFF, 0xFF, 0x1A]"
proof -
  have ok: "fst (generate_arm_payload all_succeed empty_dir) = Inr ()"
    by (simp add: generate_arm_payload_ok_iff all_succeed_def)
  show ?thesis
    using ok generate_arm_payload_file [OF ok] by simp
qed

text \<open>
  C5: when \<open>generate_simple_payload\<close> returns normally, \<^verbatim>\<open>test_payload.bin\<close>
  holds exactly the 8 bytes \<^verbatim>\<open>01 02 03 04 05 06 07 08\<close>, in that order.
\<close>

theorem generate_simple_payload_file:
  assumes "fst (generate_simple_payload env w) = Inr ()"
  shows "files (snd (generate_simple_payload env w)) ''test_payload.bin'' =
           Some [0x01, 0x02, 0x03, 0x04, 0x05, 0x06, 0x07, 0x08] \<and>
         map_option length (files (snd (generate_simple_payload env w)) ''test_payload.bin'') =
           Some 8"
proof -
  from assms have "env ''test_payload.bin'' = Succeeds"
    by (simp add: generate_simple_payload_ok_iff)
  then show ?thesis
    by (simp add: generate_simple_payload_Succeeds simple_bytes_def)
qed

theorem generate_simple_payload_file_witness:
  "fst (generate_simple_payload all_succeed empty_dir) = Inr () \<and>
   files (snd (generate_simple_payload all_succeed empty_dir)) ''test_payload.bin'' =
     Some [0x01, 0x02, 0x03, 0x04, 0x05, 0x06, 0x07, 0x08]"
proof -
  have ok: "fst (generate_simple_payload all_succeed empty_dir) = Inr ()"
    by (simp add: generate_simple_payload_ok_iff all_succeed_def)
  show ?thesis
    using ok generate_simple_payload_file [OF ok] by simp
qed

section \<open>The entry routine\<close>

text \<open>
  C3, as the code has it: when \<open>main\<close> runs in an empty directory and returns
  normally, the directory holds exactly the four files \<^verbatim>\<open>x86_test.bin\<close>,
  \<^verbatim>\<open>arm_test.bin\<close>, \<^verbatim>\<open>x64_test.bin\<close> and \<^verbatim>\<open>test_payload.bin\<close>, of
  17, 16, 23 and 8 bytes, 64 bytes in all (not 73).
\<close>

theorem main_empty_dir:
  assumes "files w = Map.empty" and "fst (main env w) = Inr ()"
  shows "dom (files (snd (main env w))) =
           {''x86_test.bin'', ''arm_test.bin'', ''x64_test.bin'', ''test_payload.bin''} \<and>
         card (dom (files (snd (main env w)))) = 4 \<and>
         file_size (snd (main env w)) ''x86_test.bin'' = 17 \<and>
         file_size (snd (main env w)) ''arm_test.bin'' = 16 \<and>
         file_size (snd (main env w)) ''x64_test.bin'' = 23 \<and>
         file_size (snd (main env w)) ''test_payload.bin'' = 8 \<and>
         directory_size (snd (main env w)) = 64"
proof -
  from assms(2) have ok: "env ''x86_test.bin'' = Succeeds" "env ''arm_test.bin'' = Succeeds"
    "env ''x64_test.bin'' = Succeeds" "env ''test_payload.bin'' = Succeeds"
    by (simp_all add: main_ok_iff)
  have run: "files (snd (main env w)) =
      [''x86_test.bin'' \<mapsto> x86_bytes, ''arm_test.bin'' \<mapsto> arm_bytes,
       ''x64_test.bin'' \<mapsto> x64_bytes, ''test_payload.bin'' \<mapsto> simple_bytes]"
    by (simp add: main_Succeeds [OF ok] assms(1))
  have d: "dom (files (snd (main env w))) =
      {''x86_test.bin'', ''arm_test.bin'', ''x64_test.bin'', ''test_payload.bin''}"
    by (auto simp: run)
  have sizes: "file_size (snd (main env w)) ''x86_test.bin'' = 17"
    "file_size (snd (main env w)) ''arm_test.bin'' = 16"
    "file_size (snd (main env w)) ''x64_test.bin'' = 23"
    "file_size (snd (main env w)) ''test_payload.bin'' = 8"
    by (simp_all add: file_size_def run bytes_defs)
  have "directory_size (snd (main env w)) = 64"
    by (simp add: directory_size_def d sizes)
  moreover have "card (dom (files (snd (main env w)))) = 4"
    by (simp add: d)
  ultimately show ?thesis
    using d sizes by simp
qed

theorem main_empty_dir_witness:
  "files empty_dir = Map.empty \<and> fst (main all_succeed empty_dir) = Inr () \<and>
   directory_size (snd (main all_succeed empty_dir)) = 64"
proof -
  have e: "files empty_dir = Map.empty"
    by (simp add: empty_dir_def)
  have ok: "fst (main all_succeed empty_dir) = Inr ()"
    by (simp add: main_ok_iff all_succeed_def)
  show ?thesis
    using e ok main_empty_dir [OF e ok] by simp
qed

text \<open>
  C3 as the specification states it (73 bytes in all) fails: a run in an empty
  directory where every write succeeds leaves 64 bytes.
\<close>

theorem main_empty_dir_73_counterexample:
  "fst (main all_succeed empty_dir) = Inr () \<and>
   directory_size (snd (main all_succeed empty_dir)) \<noteq> 73"
proof -
  have ok: "fst (main all_succeed empty_dir) = Inr ()"
    by (simp add: main_ok_iff all_succeed_def)
  have "files (snd (main all_succeed empty_dir)) =
      [''x86_test.bin'' \<mapsto> x86_bytes, ''arm_test.bin'' \<mapsto> arm_bytes,
       ''x64_test.bin'' \<mapsto> x64_bytes, ''test_payload.bin'' \<mapsto> simple_bytes]"
    by (simp add: main_Succeeds all_succeed_def empty_dir_def)
  then have "directory_size (snd (main all_succeed empty_dir)) = 64"
    by (simp add: directory_size_def file_size_def bytes_defs)
  with ok show ?thesis
    by simp
qed

text \<open>
  C6: of two runs of \<open>main\<close> on the same directory that both return normally
  (whatever the directory held before the first, and whatever the system answers), the
  second leaves every file of the directory with the content the first left: the four
  output files are overwritten with identical bytes.
\<close>

theorem main_idempotent:
  assumes "fst (main env1 w) = Inr ()"
    and "fst (main env2 (snd (main env1 w))) = Inr ()"
  shows "files (snd (main env2 (snd (main env1 w)))) = files (snd (main env1 w)) \<and>
         written (trace (snd (main env2 (snd (main env1 w))))) =
           written (trace (snd (main env1 w))) @
           [(''x86_test.bin'', x86_bytes), (''arm_test.bin'', arm_bytes),
            (''x64_test.bin'', x64_bytes), (''test_payload.bin'', simple_bytes)]"
proof -
  from assms(1) have ok1: "env1 ''x86_test.bin'' = Succeeds" "env1 ''arm_test.bin'' = Succeeds"
    "env1 ''x64_test.bin'' = Succeeds" "env1 ''test_payload.bin'' = Succeeds"
    by (simp_all add: main_ok_iff)
  from assms(2) have ok2: "env2 ''x86_test.bin'' = Succeeds" "env2 ''arm_test.bin'' = Succeeds"
    "env2 ''x64_test.bin'' = Succeeds" "env2 ''test_payload.bin'' = Succeeds"
    by (simp_all add: main_ok_iff)
  show ?thesis
    by (simp add: main_Succeeds [OF ok1] main_Succeeds [OF ok2] written_append)
qed

theorem main_idempotent_witness:
  "fst (main all_succeed empty_dir) = Inr () \<and>
   fst (main all_succeed (snd (main all_succeed empty_dir))) = Inr () \<and>
   files (snd (main all_succeed (snd (main all_succeed empty_dir)))) =
     files (snd (main all_succeed empty_dir))"
proof -
  have ok1: "fst (main all_succeed empty_dir) = Inr ()"
    by (simp add: main_ok_iff all_succeed_def)
  have ok2: "fst (main all_succeed (snd (main all_succeed empty_dir))) = Inr ()"
    by (simp add: main_ok_iff all_succeed_def)
  show ?thesis
    using ok1 ok2 main_idempotent [OF ok1 ok2] by simp
qed

text \<open>
  C7: \<open>main\<close> takes no argument and reads nothing of the directory or of a
  configuration. Whatever the directory holds and whatever the system answers, the files
  it opens are a non-empty initial part of \<^verbatim>\<open>x86_test.bin\<close>, \<^verbatim>\<open>arm_test.bin\<close>,
  \<^verbatim>\<open>x64_test.bin\<close>, \<^verbatim>\<open>test_payload.bin\<close>, in that order; and when it returns
  normally all four generators have run, and the four opens and the four writes have
  occurred in that order.
\<close>

theorem main_order:
  "(\<exists>k. 1 \<le> k \<and> k \<le> 4 \<and>
      opened (trace (snd (main env w))) =
        opened (trace w) @
        take k [''x86_test.bin'', ''arm_test.bin'', ''x64_test.bin'', ''test_payload.bin'']) \<and>
   (fst (main env w) = Inr () \<longrightarrow>
      opened (trace (snd (main env w))) =
        opened (trace w) @
        [''x86_test.bin'', ''arm_test.bin'', ''x64_test.bin'', ''test_payload.bin''] \<and>
      written (trace (snd (main env w))) =
        written (trace w) @
        [(''x86_test.bin'', x86_bytes), (''arm_test.bin'', arm_bytes),
         (''x64_test.bin'', x64_bytes), (''test_payload.bin'', simple_bytes)])"
proof (intro conjI impI)
  let ?names = "[''x86_test.bin'', ''arm_test.bin'', ''x64_test.bin'', ''test_payload.bin'']"
  let ?P = "\<lambda>k. opened (trace (snd (main env w))) = opened (trace w) @ take k ?names"
  have "?P 1 \<or> ?P 2 \<or> ?P 3 \<or> ?P 4"
  proof (cases rule: run_cases [of env])
    case all_ok
    then show ?thesis by (simp add: main_Succeeds opened_append)
  next
    case x86_open
    then show ?thesis by (simp add: main_x86_Open_fails opened_append)
  next
    case (x86_write k)
    then show ?thesis by (simp add: main_x86_Write_fails opened_append)
  next
    case arm_open
    then show ?thesis by (simp add: main_arm_Open_fails opened_append)
  next
    case (arm_write k)
    then show ?thesis by (simp add: main_arm_Write_fails opened_append)
  next
    case x64_open
    then show ?thesis by (simp add: main_x64_Open_fails opened_append)
  next
    case (x64_write k)
    then show ?thesis by (simp add: main_x64_Write_fails opened_append)
  next
    case simple_open
    then show ?thesis by (simp add: main_simple_Open_fails opened_append)
  next
    case (simple_write k)
    then show ?thesis by (simp add: main_simple_Write_fails opened_append)
  qed
  then consider "?P 1" | "?P 2" | "?P 3" | "?P 4"
    by blast
  then show "\<exists>k. 1 \<le> k \<and> k \<le> 4 \<and> ?P k"
  proof cases
    case 1
    then show ?thesis by (intro exI [of _ 1]) simp
  next
    case 2
    then show ?thesis by (intro exI [of _ 2]) simp
  next
    case 3
    then show ?thesis by (intro exI [of _ 3]) simp
  next
    case 4
    then show ?thesis by (intro exI [of _ 4]) simp
  qed
next
  assume "fst (main env w) = Inr ()"
  then have ok: "env ''x86_test.bin'' = Succeeds" "env ''arm_test.bin'' = Succeeds"
    "env ''x64_test.bin'' = Succeeds" "env ''test_payload.bin'' = Succeeds"
    by (simp_all add: main_ok_iff)
  show "opened (trace (snd (main env w))) = opened (trace w) @
      [''x86_test.bin'', ''arm_test.bin'', ''x64_test.bin'', ''test_payload.bin'']"
    by (simp add: main_Succeeds [OF ok] opened_append)
  show "written (trace (snd (main env w))) = written (trace w) @
      [(''x86_test.bin'', x86_bytes), (''arm_test.bin'', arm_bytes),
       (''x64_test.bin'', x64_bytes), (''test_payload.bin'', simple_bytes)]"
    by (simp add: main_Succeeds [OF ok] written_append)
qed

theorem main_order_witness:
  "fst (main all_succeed empty_dir) = Inr () \<and>
   opened (trace (snd (main all_succeed empty_dir))) =
     [''x86_test.bin'', ''arm_test.bin'', ''x64_test.bin'', ''test_payload.bin''] \<and>
   written (trace (snd (main all_succeed empty_dir))) =
     [(''x86_test.bin'', x86_bytes), (''arm_test.bin'', arm_bytes),
      (''x64_test.bin'', x64_bytes), (''test_payload.bin'', simple_bytes)]"
proof -
  have ok: "fst (main all_succeed empty_dir) = Inr ()"
    by (simp add: main_ok_iff all_succeed_def)
  have t: "trace empty_dir = []"
    by (simp add: empty_dir_def)
  show ?thesis
    using ok t main_order [of all_succeed empty_dir] by simp
qed

section \<open>Failure, frame and status lines\<close>

text \<open>
  C8: if the system refuses any of the four files, \<open>main\<close> raises the error of the
  first file refused (nothing catches it). The generators after that one do not run: their
  files are never opened and are as they were before the run, and the closing summary
  is not printed. The files written before the failure keep the payload they were given.
  Files other than the four are not touched. In particular, when already the first
  \<^verbatim>\<open>open\<close> is refused (a read-only directory), the error is that of
  \<^verbatim>\<open>x86_test.bin\<close>, it is the only file opened, and the directory is unchanged.
\<close>

theorem main_failure_aborts:
  assumes "env ''x86_test.bin'' \<noteq> Succeeds \<or> env ''arm_test.bin'' \<noteq> Succeeds \<or>
           env ''x64_test.bin'' \<noteq> Succeeds \<or> env ''test_payload.bin'' \<noteq> Succeeds"
  shows "let w' = snd (main env w) in
     (if env ''x86_test.bin'' \<noteq> Succeeds then
        fst (main env w) = Inl (OSError ''x86_test.bin'') \<and>
        opened (trace w') = opened (trace w) @ [''x86_test.bin''] \<and>
        files w' ''arm_test.bin'' = files w ''arm_test.bin'' \<and>
        files w' ''x64_test.bin'' = files w ''x64_test.bin'' \<and>
        files w' ''test_payload.bin'' = files w ''test_payload.bin''
      else if env ''arm_test.bin'' \<noteq> Succeeds then
        fst (main env w) = Inl (OSError ''arm_test.bin'') \<and>
        opened (trace w') = opened (trace w) @ [''x86_test.bin'', ''arm_test.bin''] \<and>
        files w' ''x86_test.bin'' = Some x86_bytes \<and>
        files w' ''x64_test.bin'' = files w ''x64_test.bin'' \<and>
        files w' ''test_payload.bin'' = files w ''test_payload.bin''
      else if env ''x64_test.bin'' \<noteq> Succeeds then
        fst (main env w) = Inl (OSError ''x64_test.bin'') \<and>
        opened (trace w') =
          opened (trace w) @ [''x86_test.bin'', ''arm_test.bin'', ''x64_test.bin''] \<and>
        files w' ''x86_test.bin'' = Some x86_bytes \<and>
        files w' ''arm_test.bin'' = Some arm_bytes \<and>
        files w' ''test_payload.bin'' = files w ''test_payload.bin''
      else
        fst (main env w) = Inl (OSError ''test_payload.bin'') \<and>
        opened (trace w') =
          opened (trace w) @
          [''x86_test.bin'', ''arm_test.bin'', ''x64_test.bin'', ''test_payload.bin''] \<and>
        files w' ''x86_test.bin'' = Some x86_bytes \<and>
        files w' ''arm_test.bin'' = Some arm_bytes \<and>
        files w' ''x64_test.bin'' = Some x64_bytes) \<and>
     (name \<notin> {''x86_test.bin'', ''arm_test.bin'', ''x64_test.bin'', ''test_payload.bin''} \<longrightarrow>
        files w' name = files w name) \<and>
     ''All test payloads generated successfully!'' \<notin>
        set (printed (drop (length (trace w)) (trace w'))) \<and>
     (env ''x86_test.bin'' = Open_fails \<longrightarrow>
        fst (main env w) = Inl (OSError ''x86_test.bin'') \<and>
        opened (trace w') = opened (trace w) @ [''x86_test.bin''] \<and>
        files w' = files w)"
proof (cases rule: run_cases [of env])
  case all_ok
  with assms show ?thesis by simp
next
  case x86_open
  then show ?thesis by (simp add: main_x86_Open_fails opened_append)
next
  case (x86_write k)
  then show ?thesis by (simp add: main_x86_Write_fails opened_append)
next
  case arm_open
  then show ?thesis by (simp add: main_arm_Open_fails opened_append)
next
  case (arm_write k)
  then show ?thesis by (simp add: main_arm_Write_fails opened_append)
next
  case x64_open
  then show ?thesis by (simp add: main_x64_Open_fails opened_append)
next
  case (x64_write k)
  then show ?thesis by (simp add: main_x64_Write_fails opened_append)
next
  case simple_open
  then show ?thesis by (simp add: main_simple_Open_fails opened_append)
next
  case (simple_write k)
  then show ?thesis by (simp add: main_simple_Write_fails opened_append)
qed

theorem main_failure_aborts_witness:
  "disk_full_at_x64 ''x64_test.bin'' \<noteq> Succeeds \<and>
   fst (main disk_full_at_x64 empty_dir) = Inl (OSError ''x64_test.bin'') \<and>
   files (snd (main disk_full_at_x64 empty_dir)) ''x86_test.bin'' = Some x86_bytes \<and>
   files (snd (main disk_full_at_x64 empty_dir)) ''arm_test.bin'' = Some arm_bytes \<and>
   files (snd (main disk_full_at_x64 empty_dir)) ''test_payload.bin'' = None \<and>
   files (snd (main disk_full_at_x64 empty_dir)) ''notes.txt'' = None \<and>
   read_only_dir ''x86_test.bin'' = Open_fails \<and>
   fst (main read_only_dir empty_dir) = Inl (OSError ''x86_test.bin'') \<and>
   opened (trace (snd (main read_only_dir empty_dir))) = [''x86_test.bin''] \<and>
   files (snd (main read_only_dir empty_dir)) = Map.empty"
proof -
  have a: "disk_full_at_x64 ''x86_test.bin'' \<noteq> Succeeds \<or>
      disk_full_at_x64 ''arm_test.bin'' \<noteq> Succeeds \<or>
      disk_full_at_x64 ''x64_test.bin'' \<noteq> Succeeds \<or>
      disk_full_at_x64 ''test_payload.bin'' \<noteq> Succeeds"
    by (simp add: disk_full_at_x64_def)
  have b: "read_only_dir ''x86_test.bin'' \<noteq> Succeeds \<or>
      read_only_dir ''arm_test.bin'' \<noteq> Succeeds \<or>
      read_only_dir ''x64_test.bin'' \<noteq> Succeeds \<or>
      read_only_dir ''test_payload.bin'' \<noteq> Succeeds"
    by (simp add: read_only_dir_def)
  have e: "files empty_dir = Map.empty" "trace empty_dir = []"
    by (simp_all add: empty_dir_def)
  have d: "disk_full_at_x64 ''x86_test.bin'' = Succeeds"
    "disk_full_at_x64 ''arm_test.bin'' = Succeeds"
    "disk_full_at_x64 ''x64_test.bin'' = Write_fails 5"
    by (simp_all add: disk_full_at_x64_def)
  have r: "read_only_dir ''x86_test.bin'' = Open_fails"
    by (simp add: read_only_dir_def)
  show ?thesis
    using main_failure_aborts [OF a, of empty_dir "''notes.txt''"]
      main_failure_aborts [OF b, of empty_dir "''notes.txt''"] e d r
    by (simp add: Let_def)
qed

text \<open>
  C9: each generator opens one file, its own, and writes to no other; every other name
  of the directory (a payload written earlier in the run included) holds after the call
  what it held before, whether the call returns or raises; and when it returns, its own
  file holds its payload.
\<close>

theorem generators_frame:
  "(name \<noteq> ''x86_test.bin'' \<longrightarrow>
      files (snd (generate_x86_payload env w)) name = files w name) \<and>
   opened (trace (snd (generate_x86_payload env w))) = opened (trace w) @ [''x86_test.bin''] \<and>
   map fst (written (trace (snd (generate_x86_payload env w)))) =
     map fst (written (trace w)) @
     (if env ''x86_test.bin'' = Open_fails then [] else [''x86_test.bin'']) \<and>
   (fst (generate_x86_payload env w) = Inr () \<longrightarrow>
      files (snd (generate_x86_payload env w)) ''x86_test.bin'' = Some x86_bytes) \<and>
   (name \<noteq> ''arm_test.bin'' \<longrightarrow>
      files (snd (generate_arm_payload env w)) name = files w name) \<and>
   opened (trace (snd (generate_arm_payload env w))) = opened (trace w) @ [''arm_test.bin''] \<and>
   map fst (written (trace (snd (generate_arm_payload env w)))) =
     map fst (written (trace w)) @
     (if env ''arm_test.bin'' = Open_fails then [] else [''arm_test.bin'']) \<and>
   (fst (generate_arm_payload env w) = Inr () \<longrightarrow>
      files (snd (generate_arm_payload env w)) ''arm_test.bin'' = Some arm_bytes) \<and>
   (name \<noteq> ''x64_test.bin'' \<longrightarrow>
      files (snd (generate_x64_payload env w)) name = files w name) \<and>
   opened (trace (snd (generate_x64_payload env w))) = opened (trace w) @ [''x64_test.bin''] \<and>
   map fst (written (trace (snd (generate_x64_payload env w)))) =
     map fst (written (trace w)) @
     (if env ''x64_test.bin'' = Open_fails then [] else [''x64_test.bin'']) \<and>
   (fst (generate_x64_payload env w) = Inr () \<longrightarrow>
      files (snd (generate_x64_payload env w)) ''x64_test.bin'' = Some x64_bytes) \<and>
   (name \<noteq> ''test_payload.bin'' \<longrightarrow>
      files (snd (generate_simple_payload env w)) name = files w name) \<and>
   opened (trace (snd (generate_simple_payload env w))) =
     opened (trace w) @ [''test_payload.bin''] \<and>
   map fst (written (trace (snd (generate_simple_payload env w)))) =
     map fst (written (trace w)) @
     (if env ''test_payload.bin'' = Open_fails then [] else [''test_payload.bin'']) \<and>
   (fst (generate_simple_payload env w) = Inr () \<longrightarrow>
      files (snd (generate_simple_payload env w)) ''test_payload.bin'' = Some simple_bytes)"
proof -
  have x86: "(name \<noteq> ''x86_test.bin'' \<longrightarrow>
      files (snd (generate_x86_payload env w)) name = files w name) \<and>
    opened (trace (snd (generate_x86_payload env w))) = opened (trace w) @ [''x86_test.bin''] \<and>
    map fst (written (trace (snd (generate_x86_payload env w)))) =
      map fst (written (trace w)) @
      (if env ''x86_test.bin'' = Open_fails then [] else [''x86_test.bin'']) \<and>
    (fst (generate_x86_payload env w) = Inr () \<longrightarrow>
      files (snd (generate_x86_payload env w)) ''x86_test.bin'' = Some x86_bytes)"
    by (cases "env ''x86_test.bin''")
       (simp_all add: generate_cases opened_append written_append)
  have arm: "(name \<noteq> ''arm_test.bin'' \<longrightarrow>
      files (snd (generate_arm_payload env w)) name = files w name) \<and>
    opened (trace (snd (generate_arm_payload env w))) = opened (trace w) @ [''arm_test.bin''] \<and>
    map fst (written (trace (snd (generate_arm_payload env w)))) =
      map fst (written (trace w)) @
      (if env ''arm_test.bin'' = Open_fails then [] else [''arm_test.bin'']) \<and>
    (fst (generate_arm_payload env w) = Inr () \<longrightarrow>
      files (snd (generate_arm_payload env w)) ''arm_test.bin'' = Some arm_bytes)"
    by (cases "env ''arm_test.bin''")
       (simp_all add: generate_cases opened_append written_append)
  have x64: "(name \<noteq> ''x64_test.bin'' \<longrightarrow>
      files (snd (generate_x64_payload env w)) name = files w name) \<and>
    opened (trace (snd (generate_x64_payload env w))) = opened (trace w) @ [''x64_test.bin''] \<and>
    map fst (written (trace (snd (generate_x64_payload env w)))) =
      map fst (written (trace w)) @
      (if env ''x64_test.bin'' = Open_fails then [] else [''x64_test.bin'']) \<and>
    (fst (generate_x64_payload env w) = Inr () \<longrightarrow>
      files (snd (generate_x64_payload env w)) ''x64_test.bin'' = Some x64_bytes)"
    by (cases "env ''x64_test.bin''")
       (simp_all add: generate_cases opened_append written_append)
  have simple: "(name \<noteq> ''test_payload.bin'' \<longrightarrow>
      files (snd (generate_simple_payload env w)) name = files w name) \<and>
    opened (trace (snd (generate_simple_payload env w))) =
      opened (trace w) @ [''test_payload.bin''] \<and>
    map fst (written (trace (snd (generate_simple_payload env w)))) =
      map fst (written (trace w)) @
      (if env ''test_payload.bin'' = Open_fails then [] else [''test_payload.bin'']) \<and>
    (fst (generate_simple_payload env w) = Inr () \<longrightarrow>
      files (snd (generate_simple_payload env w)) ''test_payload.bin'' = Some simple_bytes)"
    by (cases "env ''test_payload.bin''")
       (simp_all add: generate_cases opened_append written_append)
  from x86 arm x64 simple show ?thesis
    by blast
qed

theorem generators_frame_witness:
  "''x86_test.bin'' \<noteq> ''arm_test.bin'' \<and>
   ''x86_test.bin'' \<noteq> ''x64_test.bin'' \<and>
   ''x86_test.bin'' \<noteq> ''test_payload.bin'' \<and>
   ''arm_test.bin'' \<noteq> ''x86_test.bin'' \<and>
   fst (generate_x86_payload all_succeed empty_dir) = Inr () \<and>
   files (snd (generate_x86_payload all_succeed empty_dir)) ''x86_test.bin'' = Some x86_bytes \<and>
   files (snd (generate_arm_payload all_succeed
     (snd (generate_x86_payload all_succeed empty_dir)))) ''x86_test.bin'' = Some x86_bytes \<and>
   files (snd (generate_x64_payload all_succeed
     (snd (generate_x86_payload all_succeed empty_dir)))) ''x86_test.bin'' = Some x86_bytes \<and>
   files (snd (generate_simple_payload all_succeed
     (snd (generate_x86_payload all_succeed empty_dir)))) ''x86_test.bin'' = Some x86_bytes \<and>
   files (snd (generate_x86_payload all_succeed
     (snd (generate_arm_payload all_succeed empty_dir)))) ''arm_test.bin'' = Some arm_bytes \<and>
   fst (generate_arm_payload all_succeed empty_dir) = Inr () \<and>
   fst (generate_x64_payload all_succeed empty_dir) = Inr () \<and>
   fst (generate_simple_payload all_succeed empty_dir) = Inr ()"
proof -
  have ok: "fst (generate_x86_payload all_succeed empty_dir) = Inr ()"
    "fst (generate_arm_payload all_succeed empty_dir) = Inr ()"
    "fst (generate_x64_payload all_succeed empty_dir) = Inr ()"
    "fst (generate_simple_payload all_succeed empty_dir) = Inr ()"
    by (simp_all add: generate_x86_payload_ok_iff generate_arm_payload_ok_iff
        generate_x64_payload_ok_iff generate_simple_payload_ok_iff all_succeed_def)
  show ?thesis
    using ok
      generators_frame [of "''x86_test.bin''" all_succeed empty_dir]
      generators_frame [of "''x86_test.bin''" all_succeed
        "snd (generate_x86_payload all_succeed empty_dir)"]
      generators_frame [of "''arm_test.bin''" all_succeed empty_dir]
      generators_frame [of "''arm_test.bin''" all_succeed
        "snd (generate_arm_payload all_succeed empty_dir)"]
    by simp
qed



end
